theory Spec2Isabelle
  imports Main
begin

section \<open>JavaScript values, as far as notify.js looks at them\<close>

text \<open>
  notify.js is a facade over host objects it does not control: \<open>window.Notification\<close>,
  \<open>window.webkitNotifications\<close>, \<open>navigator.mozNotification\<close>, \<open>window.mozNotification\<close>
  and \<open>window.external\<close>. The model keeps them as JavaScript values:
  \<^item> a primitive is \<open>JUndefined\<close>, \<open>JNull\<close>, \<open>JBool\<close>, \<open>JNum\<close> (integers only: NaN and
    fractions are not modelled) or \<open>JStr\<close>;
  \<^item> an object is \<open>JObj c ps\<close>: \<open>ps\<close> lists its (plain data) properties and \<open>c\<close> says
    whether it is callable. \<open>Some (Host k)\<close> is the host function number \<open>k\<close>, whose
    behaviour the environment gives; \<open>Some Noop\<close> is the facade's own
    \<open>function() {}\<close> of requestPermission.
  Getters, proxies and additions to the built-in prototypes are not modelled: reading
  a property never runs code, and a primitive has none of the properties the facade
  reads.
\<close>

datatype fn = Host nat | Noop

datatype jsval =
    JUndefined
  | JNull
  | JBool bool
  | JNum int
  | JStr string
  | JObj "fn option" "(string \<times> jsval) list"

text \<open>What a \<open>throw\<close> carries: the language's own errors, or whatever a host function threw.\<close>

datatype exn = TypeError | ReferenceError | Thrown jsval

text \<open>
  A call into the host: \<open>Call k this args\<close> is the call of host function \<open>k\<close> as a
  method of \<open>this\<close>, \<open>New k args\<close> is \<open>new\<close> applied to it.
\<close>

datatype event = Call nat jsval "jsval list" | New nat "jsval list"

fun truthy :: "jsval \<Rightarrow> bool" where
  "truthy JUndefined = False"
| "truthy JNull = False"
| "truthy (JBool b) = b"
| "truthy (JNum n) = (n \<noteq> 0)"
| "truthy (JStr t) = (t \<noteq> [])"
| "truthy (JObj c ps) = True"

fun typeof :: "jsval \<Rightarrow> string" where
  "typeof JUndefined = ''undefined''"
| "typeof JNull = ''object''"
| "typeof (JBool b) = ''boolean''"
| "typeof (JNum n) = ''number''"
| "typeof (JStr t) = ''string''"
| "typeof (JObj None ps) = ''object''"
| "typeof (JObj (Some f) ps) = ''function''"

text \<open>
  \<open>prop_of v k\<close> is \<open>v.k\<close> for a base \<open>v\<close> that is neither undefined nor null (a missing
  property reads as undefined). The source guards most of its reads by the truthiness of
  the base; \<open>getp\<close> is the unguarded read, a TypeError on undefined and null.
\<close>

fun prop_of :: "jsval \<Rightarrow> string \<Rightarrow> jsval" where
  "prop_of (JObj c ps) k = (case map_of ps k of None \<Rightarrow> JUndefined | Some v \<Rightarrow> v)"
| "prop_of v k = JUndefined"

definition getp :: "jsval \<Rightarrow> string \<Rightarrow> exn + jsval" where
  "getp v k = (if v = JUndefined \<or> v = JNull then Inl TypeError else Inr (prop_of v k))"

fun put :: "string \<Rightarrow> jsval \<Rightarrow> (string \<times> jsval) list \<Rightarrow> (string \<times> jsval) list" where
  "put k v [] = [(k, v)]"
| "put k v (p # ps) = (if fst p = k then (k, v) # ps else p # put k v ps)"

text \<open>
  \<open>v.k = x\<close>: a TypeError on undefined and null, ignored on the other primitives (the
  file is not in strict mode), a store on an object.
\<close>

fun setp :: "jsval \<Rightarrow> string \<Rightarrow> jsval \<Rightarrow> exn + jsval" where
  "setp JUndefined k x = Inl TypeError"
| "setp JNull k x = Inl TypeError"
| "setp (JObj c ps) k x = Inr (JObj c (put k x ps))"
| "setp v k x = Inr v"

text \<open>\<open>Object(v)\<close>: an object is itself, anything else becomes an object without the properties read here.\<close>

fun Object_of :: "jsval \<Rightarrow> jsval" where
  "Object_of (JObj c ps) = JObj c ps"
| "Object_of v = JObj None []"

section \<open>The facade's state and the host environment\<close>

text \<open>
  \<open>supported\<close> is \<open>this.supported\<close> (\<open>None\<close> for null), \<open>cached\<close> is \<open>this.cached\<close>.
  \<open>trace\<close> is not a field of the source: it records, in order, every call the facade
  has made into the host, so that "no notification was created" and "the callback
  was handed to nobody" can be stated.
\<close>

record notify =
  supported :: "bool option"
  cached :: "jsval list"
  trace :: "event list"

text \<open>
  The environment of one operation: the properties of the global object \<open>window\<close>
  (the free identifier \<open>navigator\<close> is looked up there too), and what the host's
  functions do. A host function's answer may depend on everything the facade has
  called so far, it may throw, and \<open>new\<close> always yields an object. The host does
  not call back into the facade, and does not change \<open>window\<close>, during one operation.
\<close>

record env =
  window :: "(string \<times> jsval) list"
  host_call :: "event list \<Rightarrow> nat \<Rightarrow> jsval \<Rightarrow> jsval list \<Rightarrow> exn + jsval"
  host_new :: "event list \<Rightarrow> nat \<Rightarrow> jsval list \<Rightarrow> exn + fn option \<times> (string \<times> jsval) list"

text \<open>A computation either throws or returns, and leaves a state in both cases.\<close>

type_synonym 'a js = "notify \<Rightarrow> (exn + 'a) \<times> notify"

definition ret :: "'a \<Rightarrow> 'a js" where
  "ret v s = (Inr v, s)"

definition lift :: "exn + 'a \<Rightarrow> 'a js" where
  "lift r s = (r, s)"

definition bnd :: "'a js \<Rightarrow> ('a \<Rightarrow> 'b js) \<Rightarrow> 'b js" where
  "bnd m f s = (case m s of (Inl x, s') \<Rightarrow> (Inl x, s') | (Inr v, s') \<Rightarrow> f v s')"

definition try_catch :: "'a js \<Rightarrow> (exn \<Rightarrow> 'a js) \<Rightarrow> 'a js" where
  "try_catch m h s = (case m s of (Inl x, s') \<Rightarrow> h x s' | (Inr v, s') \<Rightarrow> (Inr v, s'))"

text \<open>\<open>window.k\<close>; \<open>window\<close> is the global object, so the read never throws.\<close>

definition wprop :: "env \<Rightarrow> string \<Rightarrow> jsval" where
  "wprop e k = (case map_of (window e) k of None \<Rightarrow> JUndefined | Some v \<Rightarrow> v)"

text \<open>
  \<open>navigator.mozNotification\<close>: a ReferenceError when the global object has no
  \<open>navigator\<close>, a TypeError when it is undefined or null.
\<close>

definition navigator_mozNotification :: "env \<Rightarrow> exn + jsval" where
  "navigator_mozNotification e =
     (case map_of (window e) ''navigator'' of
        None \<Rightarrow> Inl ReferenceError
      | Some nav \<Rightarrow> getp nav ''mozNotification'')"

text \<open>
  \<open>this.f(args)\<close> for the value \<open>f\<close> read from \<open>this\<close>: a TypeError when \<open>f\<close> is not
  callable; a host function is asked for its answer and the call is recorded.
\<close>

fun callm :: "env \<Rightarrow> jsval \<Rightarrow> jsval \<Rightarrow> jsval list \<Rightarrow> jsval js" where
  "callm e this (JObj (Some (Host k)) ps) args s =
     (host_call e (trace s) k this args, s\<lparr>trace := trace s @ [Call k this args]\<rparr>)"
| "callm e this (JObj (Some Noop) ps) args s = (Inr JUndefined, s)"
| "callm e this f args s = (Inl TypeError, s)"

text \<open>\<open>new f(args)\<close>.\<close>

fun construct :: "env \<Rightarrow> jsval \<Rightarrow> jsval list \<Rightarrow> jsval js" where
  "construct e (JObj (Some (Host k)) ps) args s =
     ((case host_new e (trace s) k args of
         Inl x \<Rightarrow> Inl x
       | Inr (c, qs) \<Rightarrow> Inr (JObj c qs)),
      s\<lparr>trace := trace s @ [New k args]\<rparr>)"
| "construct e (JObj (Some Noop) ps) args s = (Inr (JObj None []), s)"
| "construct e f args s = (Inl TypeError, s)"

definition PERMISSION_GRANTED :: jsval where
  "PERMISSION_GRANTED = JStr ''granted''"

definition PERMISSION_DENIED :: jsval where
  "PERMISSION_DENIED = JStr ''denied''"

definition PERMISSION_DEFAULT :: jsval where
  "PERMISSION_DEFAULT = JStr ''default''"

section \<open>Notify.prototype.available\<close>

text \<open>
  The expression inside the \<open>try\<close> of \<open>available\<close> (lines 44-48), with \<open>||\<close> and \<open>&&\<close>
  short-circuiting as in the source; \<open>!!\<close> makes it a boolean.
\<close>

definition probe :: "env \<Rightarrow> bool js" where
  "probe e =
     (if truthy (wprop e ''Notification'') then ret True
      else if truthy (wprop e ''webkitNotifications'') then ret True
      else bnd (lift (navigator_mozNotification e)) (\<lambda>moz.
        if truthy moz then ret True
        else if \<not> truthy (wprop e ''external'') then ret False
        else bnd (callm e (wprop e ''external'') (prop_of (wprop e ''external'') ''msIsSiteMode'') [])
               (\<lambda>v. ret (v \<noteq> JUndefined))))"

definition set_supported :: "bool \<Rightarrow> unit js" where
  "set_supported b s = (Inr (), s\<lparr>supported := Some b\<rparr>)"

definition available :: "env \<Rightarrow> jsval js" where
  "available e s =
     bnd (if supported s = None
          then try_catch (bnd (probe e) set_supported) (\<lambda>x. set_supported False)
          else ret ())
       (\<lambda>u s'. (Inr (JBool (supported s' = Some True)), s')) s"

text \<open>
  The constructor (lines 13-31): \<open>supported\<close> is null, \<open>available()\<close> is called, then
  the cache is the empty array. \<open>tr\<close> is what was called in the host before.
\<close>

definition Notify :: "env \<Rightarrow> event list \<Rightarrow> notify" where
  "Notify e tr =
     (snd (available e \<lparr>supported = None, cached = [], trace = tr\<rparr>))\<lparr>cached := []\<rparr>"

section \<open>Notify.prototype.requestPermission\<close>

definition requestPermission :: "env \<Rightarrow> jsval \<Rightarrow> jsval js" where
  "requestPermission e callback =
     bnd (available e) (\<lambda>a.
       if \<not> truthy a then ret JUndefined
       else
         (let callable = (if typeof callback = ''function'' then callback else JObj (Some Noop) []);
              W = wprop e ''webkitNotifications'';
              N = wprop e ''Notification''
          in if truthy W \<and> truthy (prop_of W ''checkPermission'')
             then bnd (callm e W (prop_of W ''requestPermission'') [callable]) (\<lambda>r. ret JUndefined)
             else if truthy N \<and> truthy (prop_of N ''requestPermission'')
             then bnd (callm e N (prop_of N ''requestPermission'') [callable]) (\<lambda>r. ret JUndefined)
             else ret JUndefined))"

section \<open>Notify.prototype.permissionStatus\<close>

definition permissionStatus :: "env \<Rightarrow> jsval js" where
  "permissionStatus e =
     bnd (available e) (\<lambda>a.
       if \<not> truthy a then ret (JBool False)
       else
         (let N = wprop e ''Notification''; X = wprop e ''external''
          in if truthy N \<and> truthy (prop_of N ''permissionLevel'')
             then callm e N (prop_of N ''permissionLevel'') []
             else if truthy N \<and> truthy (prop_of N ''permission'')
             then ret (prop_of N ''permission'')
             else bnd (lift (navigator_mozNotification e)) (\<lambda>moz.
               if truthy moz then ret PERMISSION_GRANTED
               else if \<not> truthy X then ret (JStr [])
               else bnd (callm e X (prop_of X ''msIsSiteMode'') []) (\<lambda>v.
                 if v = JUndefined then ret (JStr [])
                 else bnd (callm e X (prop_of X ''msIsSiteMode'') []) (\<lambda>v2.
                   ret (if truthy v2 then PERMISSION_GRANTED else PERMISSION_DEFAULT))))))"

section \<open>Notify.prototype.removeAll\<close>

text \<open>
  The callback of \<open>forEach\<close> (lines 205-219) on the element at index \<open>i\<close>. The
  assignment to \<open>onclose\<close> changes the object that the cache holds, so the cache's
  entry is replaced by the changed object.
\<close>

definition dismiss :: "env \<Rightarrow> nat \<Rightarrow> jsval \<Rightarrow> jsval js" where
  "dismiss e i notification =
     bnd (lift (setp notification ''onclose'' JNull)) (\<lambda>n.
     bnd (\<lambda>s. (Inr (), s\<lparr>cached := (cached s)[i := n]\<rparr>)) (\<lambda>u.
       (let X = wprop e ''external''
        in if truthy (prop_of n ''close'') then callm e n (prop_of n ''close'') []
           else if truthy (prop_of n ''cancel'') then callm e n (prop_of n ''cancel'') []
           else if truthy X
           then bnd (callm e X (prop_of X ''msIsSiteMode'') []) (\<lambda>v.
                  if truthy v then callm e X (prop_of X ''msSiteModeClearIconOverlay'') []
                  else ret JUndefined)
           else ret JUndefined)))"

text \<open>\<open>this.cached.forEach(...)\<close>: in order, stopping at the first callback that throws.\<close>

fun forEach_cached :: "env \<Rightarrow> nat \<Rightarrow> jsval list \<Rightarrow> unit js" where
  "forEach_cached e i [] = ret ()"
| "forEach_cached e i (n # ns) = bnd (dismiss e i n) (\<lambda>r. forEach_cached e (Suc i) ns)"

definition removeAll :: "env \<Rightarrow> jsval js" where
  "removeAll e s =
     bnd (forEach_cached e 0 (cached s)) (\<lambda>u s'. (Inr JUndefined, s'\<lparr>cached := []\<rparr>)) s"

section \<open>Notify.prototype.send\<close>

text \<open>Lines 160-185: the value of the variable \<open>notification\<close> after the dispatch.\<close>

definition send_create :: "env \<Rightarrow> jsval \<Rightarrow> jsval \<Rightarrow> jsval \<Rightarrow> jsval js" where
  "send_create e title message icon =
     (let X = wprop e ''external'';
          W = wprop e ''webkitNotifications'';
          M = wprop e ''mozNotification'';
          N = wprop e ''Notification''
      in if truthy X \<and> truthy (prop_of X ''msIsSiteMode'')
         then bnd (callm e X (prop_of X ''msIsSiteMode'') []) (\<lambda>v.
                if truthy v
                then bnd (callm e X (prop_of X ''msSiteModeClearIconOverlay'') []) (\<lambda>r1.
                     bnd (callm e X (prop_of X ''msSiteModeActivate'') []) (\<lambda>r2.
                     bnd (callm e X (prop_of X ''msSiteModeSetIconOverlay'') [icon, message]) (\<lambda>r3.
                     ret JUndefined)))
                else ret JUndefined)
         else if truthy W
         then callm e W (prop_of W ''createNotification'') [icon, title, message]
         else if truthy M
         then callm e M (prop_of M ''createNotification'') [title, message, icon]
         else if truthy N
         then construct e N [title, JObj None [(''icon'', icon), (''body'', message)]]
         else ret JUndefined)"

text \<open>
  \<open>(typeof Object(callbacks).k === 'function') ? callbacks.k : null\<close>. The second read
  happens only when \<open>callbacks\<close> is an object, so it cannot throw.
\<close>

definition callback_slot :: "jsval \<Rightarrow> string \<Rightarrow> jsval" where
  "callback_slot callbacks k =
     (if typeof (prop_of (Object_of callbacks) k) = ''function'' then prop_of callbacks k else JNull)"

text \<open>Lines 187-194. \<open>typeof null\<close> is \<open>'object'\<close> too, and the first assignment then throws.\<close>

definition send_attach :: "jsval \<Rightarrow> jsval \<Rightarrow> jsval js" where
  "send_attach callbacks notification =
     (if typeof notification = ''object''
      then bnd (lift (setp notification ''onclick'' (callback_slot callbacks ''onclick''))) (\<lambda>n1.
           bnd (lift (setp n1 ''onclose'' (callback_slot callbacks ''onclose''))) (\<lambda>n2.
           bnd (lift (setp n2 ''onshow'' (callback_slot callbacks ''onshow''))) (\<lambda>n3 s.
             (Inr JUndefined, s\<lparr>cached := cached s @ [n3]\<rparr>))))
      else ret JUndefined)"

text \<open>The happy path has no \<open>return\<close>: its value is undefined.\<close>

definition send :: "env \<Rightarrow> jsval \<Rightarrow> jsval \<Rightarrow> jsval \<Rightarrow> jsval \<Rightarrow> jsval \<Rightarrow> jsval js" where
  "send e title message icon callbacks isRemoveAll =
     bnd (permissionStatus e) (\<lambda>p.
       if p \<noteq> PERMISSION_GRANTED then ret (JBool False)
       else bnd (if truthy isRemoveAll then removeAll e else ret JUndefined) (\<lambda>u.
            bnd (send_create e title message icon) (send_attach callbacks)))"

section \<open>Predicates used in the statements\<close>

text \<open>An object or a function, as opposed to undefined, null and the primitives.\<close>

fun is_object :: "jsval \<Rightarrow> bool" where
  "is_object (JObj c ps) = True"
| "is_object v = False"

text \<open>
  An environment with none of the four backends that \<open>available\<close> looks for, seen
  from state \<open>s\<close>: no \<open>window.Notification\<close>, no \<open>window.webkitNotifications\<close>, no
  \<open>navigator.mozNotification\<close> (or no \<open>navigator\<close> to read it from), and no site-mode
  query (no \<open>window.external\<close>, or its \<open>msIsSiteMode()\<close> fails or answers undefined).
\<close>

definition no_backend :: "env \<Rightarrow> notify \<Rightarrow> bool" where
  "no_backend e s =
     (\<not> truthy (wprop e ''Notification'') \<and>
      \<not> truthy (wprop e ''webkitNotifications'') \<and>
      (case navigator_mozNotification e of Inl x \<Rightarrow> True | Inr moz \<Rightarrow> \<not> truthy moz) \<and>
      (\<not> truthy (wprop e ''external'') \<or>
       (case fst (callm e (wprop e ''external'') (prop_of (wprop e ''external'') ''msIsSiteMode'') [] s) of
          Inl x \<Rightarrow> True
        | Inr v \<Rightarrow> v = JUndefined)))"

text \<open>A handle whose \<open>close\<close> is a host function that never throws.\<close>

definition closes_quietly :: "env \<Rightarrow> jsval \<Rightarrow> bool" where
  "closes_quietly e n =
     (\<exists>c ps k qs. n = JObj c ps \<and> map_of ps ''close'' = Some (JObj (Some (Host k)) qs) \<and>
        (\<forall>tr this args. \<exists>v. host_call e tr k this args = Inr v))"

text \<open>A computation that leaves the cache as it is, or at least as long as it is.\<close>

definition keeps :: "'a js \<Rightarrow> bool" where
  "keeps m = (\<forall>s. cached (snd (m s)) = cached s)"

definition keeps_length :: "'a js \<Rightarrow> bool" where
  "keeps_length m = (\<forall>s. length (cached (snd (m s))) = length (cached s))"

section \<open>Concrete hosts\<close>

text \<open>
  A host to run the facade on. Its functions, by number: 2 and 6 are notification
  factories and answer a handle with a \<open>cancel\<close> method, 3 is a site-mode query that
  answers false, 10 throws, every other one answers undefined; \<open>new\<close> answers
  a handle with a \<open>close\<close> method (host function 9).
\<close>

definition host_demo :: "event list \<Rightarrow> nat \<Rightarrow> jsval \<Rightarrow> jsval list \<Rightarrow> exn + jsval" where
  "host_demo tr k this args =
     (if k = 2 \<or> k = 6 then Inr (JObj None [(''cancel'', JObj (Some (Host 8)) [])])
      else if k = 3 then Inr (JBool False)
      else if k = 10 then Inl (Thrown (JStr ''gone''))
      else Inr JUndefined)"

definition new_demo :: "event list \<Rightarrow> nat \<Rightarrow> jsval list \<Rightarrow> exn + fn option \<times> (string \<times> jsval) list" where
  "new_demo tr k args = Inr (None, [(''close'', JObj (Some (Host 9)) [])])"

definition env_of :: "(string \<times> jsval) list \<Rightarrow> env" where
  "env_of w = \<lparr>window = w, host_call = host_demo, host_new = new_demo\<rparr>"

text \<open>A browser without any notification backend.\<close>

definition env_none :: env where
  "env_none = env_of [(''navigator'', JObj None [])]"

text \<open>The standard constructor only, permission already granted.\<close>

definition env_standard :: env where
  "env_standard = env_of
     [(''Notification'', JObj (Some (Host 0))
         [(''permission'', JStr ''granted''), (''requestPermission'', JObj (Some (Host 1)) [])]),
      (''navigator'', JObj None [])]"

text \<open>Firefox Mobile: \<open>navigator.mozNotification\<close> and nothing else.\<close>

definition env_mobile :: env where
  "env_mobile = env_of
     [(''navigator'', JObj None
         [(''mozNotification'', JObj None [(''createNotification'', JObj (Some (Host 2)) [])])])]"

text \<open>The host shell only, site mode inactive.\<close>

definition env_shell :: env where
  "env_shell = env_of
     [(''navigator'', JObj None []),
      (''external'', JObj None [(''msIsSiteMode'', JObj (Some (Host 3)) [])])]"

text \<open>
  A browser whose \<open>window.external\<close> has no \<open>msIsSiteMode\<close> (every browser but
  Internet Explorer), without and with the vendor-prefixed backend.
\<close>

definition env_external_only :: env where
  "env_external_only = env_of
     [(''navigator'', JObj None []),
      (''external'', JObj None [(''AddSearchProvider'', JObj (Some (Host 7)) [])])]"

definition env_webkit :: env where
  "env_webkit = env_of
     [(''webkitNotifications'', JObj None
         [(''checkPermission'', JObj (Some (Host 4)) []),
          (''requestPermission'', JObj (Some (Host 5)) []),
          (''createNotification'', JObj (Some (Host 6)) [])]),
      (''navigator'', JObj None []),
      (''external'', JObj None [(''AddSearchProvider'', JObj (Some (Host 7)) [])])]"

text \<open>
  A vendor-prefixed object that has the permission check but no permission
  request, and no other backend.
\<close>

definition env_check_only :: env where
  "env_check_only = env_of
     [(''webkitNotifications'', JObj None [(''checkPermission'', JObj (Some (Host 4)) [])]),
      (''navigator'', JObj None [])]"

text \<open>A facade before its first probe, and a handle whose \<open>close\<close> is host function \<open>k\<close>.\<close>

definition fresh :: notify where
  "fresh = \<lparr>supported = None, cached = [], trace = []\<rparr>"

definition handle_close :: "nat \<Rightarrow> jsval" where
  "handle_close k = JObj None [(''close'', JObj (Some (Host k)) [])]"

definition with_cached :: "jsval list \<Rightarrow> notify" where
  "with_cached hs = \<lparr>supported = Some True, cached = hs, trace = []\<rparr>"

section \<open>The cache is touched by \<open>send\<close> and \<open>removeAll\<close> only\<close>

lemma keeps_ret: "keeps (ret v)"
  by (simp add: keeps_def ret_def)

lemma keeps_lift: "keeps (lift r)"
  by (simp add: keeps_def lift_def)

lemma keeps_if: "keeps a \<Longrightarrow> keeps b \<Longrightarrow> keeps (if c then a else b)"
  by simp

lemma keeps_bnd: "keeps m \<Longrightarrow> (\<And>v. keeps (f v)) \<Longrightarrow> keeps (bnd m f)"
  by (auto simp: keeps_def bnd_def split: prod.splits sum.splits) (metis snd_conv)+

lemma keeps_try_catch: "keeps m \<Longrightarrow> (\<And>x. keeps (h x)) \<Longrightarrow> keeps (try_catch m h)"
  by (auto simp: keeps_def try_catch_def split: prod.splits sum.splits) (metis snd_conv)+

lemma keeps_callm: "keeps (callm e this f args)"
  unfolding keeps_def
proof
  fix s show "cached (snd (callm e this f args s)) = cached s"
    by (cases "(e, this, f, args, s)" rule: callm.cases) auto
qed

lemma keeps_construct: "keeps (construct e f args)"
  unfolding keeps_def
proof
  fix s show "cached (snd (construct e f args s)) = cached s"
    by (cases "(e, f, args, s)" rule: construct.cases) auto
qed

lemmas keeps_intros = keeps_bnd keeps_if keeps_ret keeps_lift keeps_callm keeps_construct

lemma keepsD: "keeps m \<Longrightarrow> m s = (r, s') \<Longrightarrow> cached s' = cached s"
  by (metis keeps_def snd_conv)

lemma keeps_probe: "keeps (probe e)"
  unfolding probe_def by (intro keeps_intros)

lemma keeps_set_supported: "keeps (set_supported b)"
  by (simp add: keeps_def set_supported_def)

lemma keeps_available: "keeps (available e)"
proof -
  have "cached (snd (available e s)) = cached s" for s
  proof (cases "supported s")
    case None
    have "keeps (bnd (try_catch (bnd (probe e) set_supported) (\<lambda>x. set_supported False))
       (\<lambda>u s'. (Inr (JBool (supported s' = Some True)), s')))"
      by (intro keeps_bnd keeps_try_catch keeps_probe keeps_set_supported) (simp add: keeps_def)
    with None show ?thesis by (simp add: available_def keeps_def)
  next
    case (Some b)
    then show ?thesis by (simp add: available_def bnd_def ret_def)
  qed
  then show ?thesis by (simp add: keeps_def)
qed

lemma keeps_permissionStatus: "keeps (permissionStatus e)"
  unfolding permissionStatus_def Let_def by (intro keeps_intros keeps_available)

lemma keeps_send_create: "keeps (send_create e title message icon)"
  unfolding send_create_def Let_def by (intro keeps_intros)

lemma keeps_length_bnd:
  "keeps_length m \<Longrightarrow> (\<And>v. keeps_length (f v)) \<Longrightarrow> keeps_length (bnd m f)"
  by (auto simp: keeps_length_def bnd_def split: prod.splits sum.splits) (metis snd_conv)+

lemma keeps_length_store: "keeps_length (\<lambda>s. (Inr (), s\<lparr>cached := (cached s)[i := n]\<rparr>))"
  by (simp add: keeps_length_def)

lemma keeps_imp_length: "keeps m \<Longrightarrow> keeps_length m"
  by (simp add: keeps_def keeps_length_def)

lemma keeps_length_dismiss: "keeps_length (dismiss e i n)"
  unfolding dismiss_def Let_def
  by (intro keeps_length_bnd keeps_length_store keeps_imp_length [OF keeps_lift]
        keeps_imp_length [OF keeps_if] keeps_intros)

lemma keeps_length_forEach: "keeps_length (forEach_cached e i ns)"
proof (induction ns arbitrary: i)
  case Nil
  show ?case by (simp add: keeps_imp_length keeps_ret)
next
  case (Cons n ns)
  show ?case by (simp add: keeps_length_bnd keeps_length_dismiss Cons.IH)
qed

section \<open>available\<close>

lemma available_supported: "supported (snd (available e s)) \<noteq> None"
  by (cases "supported s")
     (auto simp: available_def bnd_def ret_def try_catch_def set_supported_def
           split: prod.splits sum.splits)

lemma available_known: "supported s = Some b \<Longrightarrow> available e s = (Inr (JBool b), s)"
  by (cases b) (simp_all add: available_def bnd_def ret_def)

lemma available_result:
  "fst (available e s) = Inr (JBool (supported (snd (available e s)) = Some True))"
  by (cases "supported s")
     (auto simp: available_def bnd_def ret_def try_catch_def set_supported_def
           split: prod.splits sum.splits)

lemma probe_no_backend: "no_backend e s \<Longrightarrow> fst (probe e s) \<noteq> Inr True"
  by (auto simp: no_backend_def probe_def bnd_def ret_def lift_def split: prod.splits sum.splits)

lemma available_caught:
  "supported s = None \<Longrightarrow> fst (probe e s) \<noteq> Inr True \<Longrightarrow> fst (available e s) = Inr (JBool False)"
  by (auto simp: available_def bnd_def ret_def try_catch_def set_supported_def
           split: prod.splits sum.splits)

text \<open>Unfolding everything, to run the facade on a concrete host.\<close>

lemmas run_simps = env_of_def host_demo_def new_demo_def fresh_def handle_close_def with_cached_def
  available_def probe_def bnd_def ret_def lift_def try_catch_def set_supported_def
  wprop_def navigator_mozNotification_def getp_def Notify_def
  permissionStatus_def send_def send_create_def send_attach_def callback_slot_def
  removeAll_def dismiss_def requestPermission_def
  PERMISSION_GRANTED_def PERMISSION_DEFAULT_def PERMISSION_DENIED_def Let_def

section \<open>removeAll\<close>

lemma forEach_append:
  "forEach_cached e i (xs @ ys) =
     bnd (forEach_cached e i xs) (\<lambda>u. forEach_cached e (i + length xs) ys)"
proof (induction xs arbitrary: i)
  case Nil
  show ?case by (rule ext) (simp add: bnd_def ret_def)
next
  case (Cons x xs)
  show ?case
    by (rule ext) (simp add: Cons.IH bnd_def split: prod.splits sum.splits)
qed

lemma removeAll_returns_empty: "removeAll e s = (Inr v, s') \<Longrightarrow> cached s' = []"
  by (auto simp: removeAll_def bnd_def split: prod.splits sum.splits)

lemma map_of_put: "map_of (put k v ps) k' = (if k' = k then Some v else map_of ps k')"
  by (induction ps) auto

lemma dismiss_quiet:
  assumes "closes_quietly e n"
  shows "\<exists>v s'. dismiss e i n s = (Inr v, s')"
proof -
  from assms obtain c ps k qs where n: "n = JObj c ps"
    and cl: "map_of ps ''close'' = Some (JObj (Some (Host k)) qs)"
    and q: "\<And>tr this args. \<exists>v. host_call e tr k this args = Inr v"
    unfolding closes_quietly_def by blast
  obtain v where "host_call e (trace s) k (JObj c (put ''onclose'' JNull ps)) [] = Inr v"
    using q by blast
  then show ?thesis
    by (simp add: dismiss_def bnd_def lift_def n map_of_put cl)
qed

lemma forEach_quiet:
  "list_all (closes_quietly e) ns \<Longrightarrow> \<exists>s'. forEach_cached e i ns s = (Inr (), s')"
proof (induction ns arbitrary: i s)
  case Nil
  show ?case by (simp add: ret_def)
next
  case (Cons n ns)
  then obtain v s1 where d: "dismiss e i n s = (Inr v, s1)"
    using dismiss_quiet [of e n i s] by auto
  from Cons obtain s2 where "forEach_cached e (Suc i) ns s1 = (Inr (), s2)"
    by fastforce
  with d show ?case by (simp add: bnd_def)
qed

text \<open>
  Claim C3, as the code has it. \<open>removeAll\<close> has no guard around a dismissal. When
  every callback of the loop returns, \<open>removeAll\<close> returns with the cache reset to
  empty. When the dismissal of a handle throws (after the handles \<open>pre\<close> before it
  were dismissed), \<open>removeAll\<close> throws the same exception in the state that dismissal
  left: the handles \<open>post\<close> after it are not processed and the cache keeps its length,
  it is not reset.
\<close>

theorem removeAll_aborts_on_throw:
  "(forEach_cached e 0 (cached s) s = (Inr u, s1) \<longrightarrow>
      removeAll e s = (Inr JUndefined, s1\<lparr>cached := []\<rparr>)) \<and>
   (cached s = pre @ n # post \<and> forEach_cached e 0 pre s = (Inr u, s1) \<and>
    dismiss e (length pre) n s1 = (Inl x, s2) \<longrightarrow>
      removeAll e s = (Inl x, s2) \<and> length (cached s2) = length (cached s))"
proof (intro conjI impI)
  assume "forEach_cached e 0 (cached s) s = (Inr u, s1)"
  then show "removeAll e s = (Inr JUndefined, s1\<lparr>cached := []\<rparr>)"
    by (simp add: removeAll_def bnd_def)
next
  assume a: "cached s = pre @ n # post \<and> forEach_cached e 0 pre s = (Inr u, s1) \<and>
    dismiss e (length pre) n s1 = (Inl x, s2)"
  then have loop: "forEach_cached e 0 (cached s) s = (Inl x, s2)"
    by (simp add: forEach_append bnd_def)
  then show "removeAll e s = (Inl x, s2)"
    by (simp add: removeAll_def bnd_def)
  have "length (cached (snd (forEach_cached e 0 (cached s) s))) = length (cached s)"
    using keeps_length_forEach [of e 0 "cached s"] by (simp add: keeps_length_def)
  with loop show "length (cached s2) = length (cached s)"
    by simp
qed

text \<open>
  The amended claim at work: two quiet handles are dismissed and the cache is reset;
  with a first handle whose \<open>close\<close> throws, \<open>removeAll\<close> throws and both handles
  are still cached.
\<close>

theorem removeAll_aborts_on_throw_witness:
  "forEach_cached env_none 0 [handle_close 9, handle_close 8] (with_cached [handle_close 9, handle_close 8])
     = (Inr (), \<lparr>supported = Some True,
          cached = [JObj None [(''close'', JObj (Some (Host 9)) []), (''onclose'', JNull)],
                    JObj None [(''close'', JObj (Some (Host 8)) []), (''onclose'', JNull)]],
          trace = [Call 9 (JObj None [(''close'', JObj (Some (Host 9)) []), (''onclose'', JNull)]) [],
                   Call 8 (JObj None [(''close'', JObj (Some (Host 8)) []), (''onclose'', JNull)]) []]\<rparr>) \<and>
   fst (removeAll env_none (with_cached [handle_close 9, handle_close 8])) = Inr JUndefined \<and>
   cached (snd (removeAll env_none (with_cached [handle_close 9, handle_close 8]))) = [] \<and>
   dismiss env_none 0 (handle_close 10) (with_cached [handle_close 10, handle_close 9])
     = (Inl (Thrown (JStr ''gone'')),
        \<lparr>supported = Some True,
         cached = [JObj None [(''close'', JObj (Some (Host 10)) []), (''onclose'', JNull)], handle_close 9],
         trace = [Call 10 (JObj None [(''close'', JObj (Some (Host 10)) []), (''onclose'', JNull)]) []]\<rparr>) \<and>
   fst (removeAll env_none (with_cached [handle_close 10, handle_close 9])) = Inl (Thrown (JStr ''gone'')) \<and>
   length (cached (snd (removeAll env_none (with_cached [handle_close 10, handle_close 9])))) = 2"
  using removeAll_aborts_on_throw [of env_none "with_cached [handle_close 9, handle_close 8]" "()"
          "snd (forEach_cached env_none 0 [handle_close 9, handle_close 8]
                 (with_cached [handle_close 9, handle_close 8]))"]
        removeAll_aborts_on_throw [of env_none "with_cached [handle_close 10, handle_close 9]" "()"
          "with_cached [handle_close 10, handle_close 9]" "[]" "handle_close 10" "[handle_close 9]"
          "Thrown (JStr ''gone'')"
          "snd (dismiss env_none 0 (handle_close 10) (with_cached [handle_close 10, handle_close 9]))"]
  by (simp add: run_simps env_none_def)

text \<open>
  Claim C3, as the specification states it, fails: the first of two cached handles
  has a \<open>close\<close> that throws. \<open>removeAll\<close> throws what \<open>close\<close> threw; the only call
  made into the host is that \<open>close\<close>, so the second handle was not dismissed, and
  the cache still holds both handles.
\<close>

theorem removeAll_throw_counterexample:
  "removeAll env_none (with_cached [handle_close 10, handle_close 9])
     = (Inl (Thrown (JStr ''gone'')),
        \<lparr>supported = Some True,
         cached = [JObj None [(''close'', JObj (Some (Host 10)) []), (''onclose'', JNull)], handle_close 9],
         trace = [Call 10 (JObj None [(''close'', JObj (Some (Host 10)) []), (''onclose'', JNull)]) []]\<rparr>)"
  by (simp add: run_simps env_none_def)

text \<open>
  Claim C6. Whenever \<open>removeAll\<close> returns, the cache is empty, whatever it held
  before, and a second \<open>removeAll\<close> (in any environment) returns at once and changes
  nothing. On an empty cache \<open>removeAll\<close> returns without touching the state, so it
  calls nothing in the host and does not throw. It does return, with the cache
  empty, whenever every cached handle has a \<open>close\<close> that does not throw.
\<close>

theorem removeAll_empties_cache:
  "(removeAll e s = (Inr v, s') \<longrightarrow>
      cached s' = [] \<and> removeAll e' s' = (Inr JUndefined, s')) \<and>
   (cached s = [] \<longrightarrow> removeAll e s = (Inr JUndefined, s)) \<and>
   (list_all (closes_quietly e) (cached s) \<longrightarrow>
      fst (removeAll e s) = Inr JUndefined \<and> cached (snd (removeAll e s)) = [])"
proof -
  have empty: "removeAll e2 t = (Inr JUndefined, t)" if "cached t = []" for e2 t
    using that by (simp add: removeAll_def bnd_def ret_def)
  have ret: "cached s' = []" if "removeAll e s = (Inr v, s')"
    using that by (rule removeAll_returns_empty)
  have quiet: "fst (removeAll e s) = Inr JUndefined \<and> cached (snd (removeAll e s)) = []"
    if q: "list_all (closes_quietly e) (cached s)"
  proof -
    obtain s1 where "forEach_cached e 0 (cached s) s = (Inr (), s1)"
      using forEach_quiet [OF q] by blast
    then show ?thesis by (simp add: removeAll_def bnd_def)
  qed
  from empty ret quiet show ?thesis by blast
qed

text \<open>Caches of size 0, 1 and 3.\<close>

theorem removeAll_empties_cache_witness:
  "removeAll env_none (with_cached []) = (Inr JUndefined, with_cached []) \<and>
   removeAll env_none (with_cached [handle_close 9])
     = (Inr JUndefined,
        \<lparr>supported = Some True, cached = [],
         trace = [Call 9 (JObj None [(''close'', JObj (Some (Host 9)) []), (''onclose'', JNull)]) []]\<rparr>) \<and>
   removeAll env_standard
        \<lparr>supported = Some True, cached = [],
         trace = [Call 9 (JObj None [(''close'', JObj (Some (Host 9)) []), (''onclose'', JNull)]) []]\<rparr>
     = (Inr JUndefined,
        \<lparr>supported = Some True, cached = [],
         trace = [Call 9 (JObj None [(''close'', JObj (Some (Host 9)) []), (''onclose'', JNull)]) []]\<rparr>) \<and>
   list_all (closes_quietly env_none) [handle_close 9, handle_close 8, handle_close 9] \<and>
   fst (removeAll env_none (with_cached [handle_close 9, handle_close 8, handle_close 9])) = Inr JUndefined \<and>
   cached (snd (removeAll env_none (with_cached [handle_close 9, handle_close 8, handle_close 9]))) = []"
proof -
  have e: "cached (with_cached []) = []"
    by (simp add: with_cached_def)
  have r1: "removeAll env_none (with_cached [handle_close 9])
     = (Inr JUndefined,
        \<lparr>supported = Some True, cached = [],
         trace = [Call 9 (JObj None [(''close'', JObj (Some (Host 9)) []), (''onclose'', JNull)]) []]\<rparr>)"
    by (simp add: run_simps env_none_def)
  have q3: "list_all (closes_quietly env_none)
              (cached (with_cached [handle_close 9, handle_close 8, handle_close 9]))"
    by (simp add: closes_quietly_def handle_close_def env_none_def env_of_def host_demo_def
          with_cached_def)
  have c3: "cached (with_cached [handle_close 9, handle_close 8, handle_close 9])
              = [handle_close 9, handle_close 8, handle_close 9]"
    by (simp add: with_cached_def)
  have t0: "removeAll env_none (with_cached []) = (Inr JUndefined, with_cached [])"
    using removeAll_empties_cache [of env_none "with_cached []"] e by blast
  have t1: "removeAll env_standard
        \<lparr>supported = Some True, cached = [],
         trace = [Call 9 (JObj None [(''close'', JObj (Some (Host 9)) []), (''onclose'', JNull)]) []]\<rparr>
     = (Inr JUndefined,
        \<lparr>supported = Some True, cached = [],
         trace = [Call 9 (JObj None [(''close'', JObj (Some (Host 9)) []), (''onclose'', JNull)]) []]\<rparr>)"
    using removeAll_empties_cache [of env_none "with_cached [handle_close 9]" JUndefined _ env_standard] r1
    by blast
  have t3: "fst (removeAll env_none (with_cached [handle_close 9, handle_close 8, handle_close 9])) = Inr JUndefined \<and>
   cached (snd (removeAll env_none (with_cached [handle_close 9, handle_close 8, handle_close 9]))) = []"
    using removeAll_empties_cache [of env_none "with_cached [handle_close 9, handle_close 8, handle_close 9]"] q3
    by blast
  from q3 c3 have q: "list_all (closes_quietly env_none) [handle_close 9, handle_close 8, handle_close 9]"
    by simp
  from t0 r1 t1 q t3 show ?thesis
    by blast
qed

section \<open>The claims about available\<close>

text \<open>
  Claim C7. After a call of \<open>available\<close> the flag \<open>supported\<close> is no longer null, and
  a further call, in whatever environment \<open>e'\<close>, gives the same boolean and leaves
  the state as it is: it calls nothing in the host, so the probe is not run again.
  On a facade that has not probed yet, in an environment with none of the four
  backends, the first call answers false, and so does every later one.
\<close>

theorem available_memoized:
  "supported (snd (available e s)) \<noteq> None \<and>
   available e' (snd (available e s)) = available e s \<and>
   (supported s = None \<and> no_backend e s \<longrightarrow>
      fst (available e s) = Inr (JBool False) \<and>
      available e' (snd (available e s)) = (Inr (JBool False), snd (available e s)))"
proof -
  obtain b where b: "supported (snd (available e s)) = Some b"
    using available_supported [of e s] by auto
  have r: "fst (available e s) = Inr (JBool b)"
    using available_result [of e s] b by (cases b) simp_all
  have again: "available e' (snd (available e s)) = available e s"
    using available_known [OF b, of e'] r by (simp add: prod_eq_iff)
  have none: "fst (available e s) = Inr (JBool False)" if "supported s = None" "no_backend e s"
    using that by (intro available_caught probe_no_backend)
  show ?thesis using b again none by (auto simp: prod_eq_iff)
qed

text \<open>
  No backend at the first call; the second call happens in an environment that has
  the standard constructor, and still answers false.
\<close>

theorem available_memoized_witness:
  "supported fresh = None \<and> no_backend env_none fresh \<and>
   available env_none fresh = (Inr (JBool False), fresh\<lparr>supported := Some False\<rparr>) \<and>
   available env_standard (fresh\<lparr>supported := Some False\<rparr>)
     = (Inr (JBool False), fresh\<lparr>supported := Some False\<rparr>)"
  using available_memoized [of env_none fresh env_standard]
  by (simp add: run_simps env_none_def env_standard_def no_backend_def)

text \<open>
  Claim C8. \<open>available\<close> always returns a boolean, it never throws. When the probe
  itself throws (on a facade that has not probed yet), the exception is caught:
  \<open>available\<close> returns false and records \<open>supported = false\<close>.
\<close>

theorem available_never_throws:
  "(\<exists>b. fst (available e s) = Inr (JBool b)) \<and>
   (supported s = None \<and> fst (probe e s) = Inl x \<longrightarrow>
      available e s = (Inr (JBool False), (snd (probe e s))\<lparr>supported := Some False\<rparr>))"
proof
  show "\<exists>b. fst (available e s) = Inr (JBool b)"
    using available_result [of e s] by blast
  show "supported s = None \<and> fst (probe e s) = Inl x \<longrightarrow>
      available e s = (Inr (JBool False), (snd (probe e s))\<lparr>supported := Some False\<rparr>)"
    by (auto simp: available_def bnd_def ret_def try_catch_def set_supported_def
           split: prod.splits sum.splits)
qed

text \<open>
  \<open>window.external\<close> without \<open>msIsSiteMode\<close>: the site-mode query throws a TypeError,
  and \<open>available\<close> answers false.
\<close>

theorem available_never_throws_witness:
  "supported fresh = None \<and> probe env_external_only fresh = (Inl TypeError, fresh) \<and>
   available env_external_only fresh = (Inr (JBool False), fresh\<lparr>supported := Some False\<rparr>)"
  using available_never_throws [of env_external_only fresh TypeError]
  by (simp add: run_simps env_external_only_def)

section \<open>The claims about requestPermission, permissionStatus and send\<close>

text \<open>
  Claim C9, as the code has it. The facade takes the vendor-prefixed backend to
  offer a permission request when \<open>window.webkitNotifications.checkPermission\<close> is
  there (line 74), and the standard backend when
  \<open>window.Notification.requestPermission\<close> is there (line 86). When \<open>available()\<close> is
  false, or when neither of the two is there, \<open>requestPermission\<close> returns undefined
  in the state that \<open>available()\<close> left: it does not throw and calls nothing in the
  host after the probe, so the callback is handed to nobody, and the outcome does
  not depend on the callback. A callback that is not a function is replaced by the
  facade's own no-op before anything else happens.
\<close>

theorem requestPermission_noop:
  "(fst (available e s) = Inr (JBool False) \<or>
    (\<not> (truthy (wprop e ''webkitNotifications'') \<and>
        truthy (prop_of (wprop e ''webkitNotifications'') ''checkPermission'')) \<and>
     \<not> (truthy (wprop e ''Notification'') \<and>
        truthy (prop_of (wprop e ''Notification'') ''requestPermission'')))
    \<longrightarrow> requestPermission e cb s = (Inr JUndefined, snd (available e s))) \<and>
   (typeof cb \<noteq> ''function'' \<longrightarrow>
      requestPermission e cb s = requestPermission e (JObj (Some Noop) []) s)"
proof -
  obtain b where r: "fst (available e s) = Inr (JBool b)"
    using available_result [of e s] by blast
  then obtain s1 where av: "available e s = (Inr (JBool b), s1)"
    by (cases "available e s") simp
  show ?thesis
    by (cases b) (simp_all add: requestPermission_def bnd_def ret_def Let_def av)
qed

text \<open>
  No backend at all; then the mobile backend, which has no permission request; then
  a number as callback where the standard backend takes requests: the host receives
  the no-op.
\<close>

theorem requestPermission_noop_witness:
  "available env_none (Notify env_none []) = (Inr (JBool False), Notify env_none []) \<and>
   requestPermission env_none (JObj (Some (Host 20)) []) (Notify env_none [])
     = (Inr JUndefined, Notify env_none []) \<and>
   available env_mobile (Notify env_mobile []) = (Inr (JBool True), Notify env_mobile []) \<and>
   requestPermission env_mobile (JObj (Some (Host 20)) []) (Notify env_mobile [])
     = (Inr JUndefined, Notify env_mobile []) \<and>
   typeof (JNum 3) = ''number'' \<and>
   requestPermission env_standard (JNum 3) (Notify env_standard [])
     = requestPermission env_standard (JObj (Some Noop) []) (Notify env_standard []) \<and>
   trace (snd (requestPermission env_standard (JNum 3) (Notify env_standard [])))
     = [Call 1 (wprop env_standard ''Notification'') [JObj (Some Noop) []]]"
proof -
  have a0: "available env_none (Notify env_none []) = (Inr (JBool False), Notify env_none [])"
    by (simp add: run_simps env_none_def)
  have a1: "available env_mobile (Notify env_mobile []) = (Inr (JBool True), Notify env_mobile [])"
    by (simp add: run_simps env_mobile_def)
  have g1: "\<not> (truthy (wprop env_mobile ''webkitNotifications'') \<and>
        truthy (prop_of (wprop env_mobile ''webkitNotifications'') ''checkPermission'')) \<and>
     \<not> (truthy (wprop env_mobile ''Notification'') \<and>
        truthy (prop_of (wprop env_mobile ''Notification'') ''requestPermission''))"
    by (simp add: run_simps env_mobile_def)
  have t0: "requestPermission env_none (JObj (Some (Host 20)) []) (Notify env_none [])
     = (Inr JUndefined, Notify env_none [])"
    using requestPermission_noop [of env_none "Notify env_none []" "JObj (Some (Host 20)) []"] a0
    by simp
  have t1: "requestPermission env_mobile (JObj (Some (Host 20)) []) (Notify env_mobile [])
     = (Inr JUndefined, Notify env_mobile [])"
    using requestPermission_noop [of env_mobile "Notify env_mobile []" "JObj (Some (Host 20)) []"] a1 g1
    by simp
  have t2: "requestPermission env_standard (JNum 3) (Notify env_standard [])
     = requestPermission env_standard (JObj (Some Noop) []) (Notify env_standard [])"
    using requestPermission_noop [of env_standard "Notify env_standard []" "JNum 3"]
    by simp
  have tr: "trace (snd (requestPermission env_standard (JNum 3) (Notify env_standard [])))
     = [Call 1 (wprop env_standard ''Notification'') [JObj (Some Noop) []]]"
    by (simp add: run_simps env_standard_def)
  from a0 a1 t0 t1 t2 tr show ?thesis
    by simp
qed

text \<open>
  Claim C9, as the specification states it, fails. The vendor-prefixed object has
  \<open>checkPermission\<close> but no \<open>requestPermission\<close>, and there is no
  \<open>window.Notification\<close>: no backend offers a permission request. The facade is
  available, the test of line 74 succeeds on \<open>checkPermission\<close>, and line 84 calls
  \<open>window.webkitNotifications.requestPermission\<close>, which is undefined:
  \<open>requestPermission\<close> throws a TypeError instead of returning.
\<close>

theorem requestPermission_check_only_counterexample:
  "available env_check_only (Notify env_check_only [])
     = (Inr (JBool True), Notify env_check_only []) \<and>
   prop_of (wprop env_check_only ''webkitNotifications'') ''requestPermission'' = JUndefined \<and>
   wprop env_check_only ''Notification'' = JUndefined \<and>
   wprop env_check_only ''mozNotification'' = JUndefined \<and>
   wprop env_check_only ''external'' = JUndefined \<and>
   navigator_mozNotification env_check_only = Inr JUndefined \<and>
   requestPermission env_check_only (JObj (Some (Host 20)) []) (Notify env_check_only [])
     = (Inl TypeError, \<lparr>supported = Some True, cached = [], trace = []\<rparr>)"
  by (simp add: run_simps env_check_only_def)

text \<open>
  Claim C1. When \<open>permissionStatus()\<close> returns anything but \<open>'granted'\<close>, \<open>send\<close>
  returns false in the very state \<open>permissionStatus()\<close> left, whatever its arguments:
  nothing was called in the host after the permission query, so no notification was
  created and \<open>removeAll\<close> did not run, and the cache is the one \<open>send\<close> started with.
\<close>

theorem send_not_granted:
  assumes "permissionStatus e s = (Inr p, s1)" and "p \<noteq> PERMISSION_GRANTED"
  shows "send e title message icon callbacks isRemoveAll s = (Inr (JBool False), s1) \<and>
         cached s1 = cached s"
proof
  show "send e title message icon callbacks isRemoveAll s = (Inr (JBool False), s1)"
    using assms by (simp add: send_def bnd_def ret_def)
  show "cached s1 = cached s"
    using keeps_permissionStatus assms(1) by (rule keepsD)
qed

text \<open>
  The host shell with site mode inactive, two handles cached, \<open>clearAllFirst\<close> true:
  the status is \<open>'default'\<close>, \<open>send\<close> returns false and both handles stay cached.
\<close>

theorem send_not_granted_witness:
  "permissionStatus env_shell (with_cached [handle_close 9, handle_close 8])
     = (Inr PERMISSION_DEFAULT,
        \<lparr>supported = Some True, cached = [handle_close 9, handle_close 8],
         trace = [Call 3 (wprop env_shell ''external'') [], Call 3 (wprop env_shell ''external'') []]\<rparr>) \<and>
   PERMISSION_DEFAULT \<noteq> PERMISSION_GRANTED \<and>
   send env_shell (JStr ''Hi'') (JStr ''Body'') (JStr ''icon.png'') JUndefined (JBool True)
        (with_cached [handle_close 9, handle_close 8])
     = (Inr (JBool False),
        \<lparr>supported = Some True, cached = [handle_close 9, handle_close 8],
         trace = [Call 3 (wprop env_shell ''external'') [], Call 3 (wprop env_shell ''external'') []]\<rparr>)"
proof -
  have p: "permissionStatus env_shell (with_cached [handle_close 9, handle_close 8])
     = (Inr PERMISSION_DEFAULT,
        \<lparr>supported = Some True, cached = [handle_close 9, handle_close 8],
         trace = [Call 3 (wprop env_shell ''external'') [], Call 3 (wprop env_shell ''external'') []]\<rparr>)"
    by (simp add: run_simps env_shell_def)
  have d: "PERMISSION_DEFAULT \<noteq> PERMISSION_GRANTED"
    by (simp add: PERMISSION_DEFAULT_def PERMISSION_GRANTED_def)
  from send_not_granted [OF p d, of "JStr ''Hi''" "JStr ''Body''" "JStr ''icon.png''" JUndefined "JBool True"] p d
  show ?thesis by simp
qed

lemma callback_slot_not_object: "\<not> is_object callbacks \<Longrightarrow> callback_slot callbacks k = JNull"
  by (cases callbacks) (simp_all add: callback_slot_def)

lemma send_attach_object:
  "send_attach callbacks (JObj None ps) s =
     (Inr JUndefined,
      s\<lparr>cached := cached s @
         [JObj None (put ''onshow'' (callback_slot callbacks ''onshow'')
            (put ''onclose'' (callback_slot callbacks ''onclose'')
              (put ''onclick'' (callback_slot callbacks ''onclick'') ps)))]\<rparr>)"
  by (simp add: send_attach_def bnd_def lift_def)

text \<open>
  Claim C5. With permission granted and \<open>clearAllFirst\<close> truthy, \<open>send\<close> is
  \<open>removeAll\<close>, run in the state the permission query left, followed by the creation
  and the attachment. When \<open>removeAll\<close> returns, the creation starts on an empty
  cache, whatever was cached before; when the backend then answers a handle (an
  object), the cache is still empty after the creation call, \<open>send\<close> returns, and the
  cache holds exactly one handle.
\<close>

theorem send_clears_first:
  assumes "permissionStatus e s = (Inr PERMISSION_GRANTED, s1)" and "truthy isRemoveAll"
  shows "send e title message icon callbacks isRemoveAll s =
           bnd (removeAll e) (\<lambda>u. bnd (send_create e title message icon) (send_attach callbacks)) s1 \<and>
         (\<forall>u s2. removeAll e s1 = (Inr u, s2) \<longrightarrow>
            cached s2 = [] \<and>
            (\<forall>ps s3. send_create e title message icon s2 = (Inr (JObj None ps), s3) \<longrightarrow>
               cached s3 = [] \<and>
               fst (send e title message icon callbacks isRemoveAll s) = Inr JUndefined \<and>
               length (cached (snd (send e title message icon callbacks isRemoveAll s))) = 1))"
proof (intro conjI allI impI)
  show pipeline: "send e title message icon callbacks isRemoveAll s =
           bnd (removeAll e) (\<lambda>u. bnd (send_create e title message icon) (send_attach callbacks)) s1"
    using assms by (simp add: send_def bnd_def)
  fix u s2
  assume r: "removeAll e s1 = (Inr u, s2)"
  then show c2: "cached s2 = []" by (rule removeAll_returns_empty)
  fix ps s3
  assume c: "send_create e title message icon s2 = (Inr (JObj None ps), s3)"
  show c3: "cached s3 = []"
    using keepsD [OF keeps_send_create c] c2 by simp
  have fin: "send e title message icon callbacks isRemoveAll s =
               send_attach callbacks (JObj None ps) s3"
    using pipeline r c by (simp add: bnd_def)
  show "fst (send e title message icon callbacks isRemoveAll s) = Inr JUndefined"
    by (simp add: fin send_attach_object)
  show "length (cached (snd (send e title message icon callbacks isRemoveAll s))) = 1"
    by (simp add: fin send_attach_object c3)
qed

text \<open>
  The standard backend with permission granted and two handles cached: both are
  closed, the constructor is called on an empty cache, and the new handle is the
  only one cached afterwards.
\<close>

theorem send_clears_first_witness:
  "permissionStatus env_standard (with_cached [handle_close 9, handle_close 8])
     = (Inr PERMISSION_GRANTED, with_cached [handle_close 9, handle_close 8]) \<and>
   truthy (JBool True) \<and>
   removeAll env_standard (with_cached [handle_close 9, handle_close 8])
     = (Inr JUndefined,
        \<lparr>supported = Some True, cached = [],
         trace = [Call 9 (JObj None [(''close'', JObj (Some (Host 9)) []), (''onclose'', JNull)]) [],
                  Call 8 (JObj None [(''close'', JObj (Some (Host 8)) []), (''onclose'', JNull)]) []]\<rparr>) \<and>
   fst (send_create env_standard (JStr ''Hi'') (JStr ''Body'') (JStr ''icon.png'')
        \<lparr>supported = Some True, cached = [],
         trace = [Call 9 (JObj None [(''close'', JObj (Some (Host 9)) []), (''onclose'', JNull)]) [],
                  Call 8 (JObj None [(''close'', JObj (Some (Host 8)) []), (''onclose'', JNull)]) []]\<rparr>)
     = Inr (handle_close 9) \<and>
   fst (send env_standard (JStr ''Hi'') (JStr ''Body'') (JStr ''icon.png'') JUndefined (JBool True)
          (with_cached [handle_close 9, handle_close 8])) = Inr JUndefined \<and>
   length (cached (snd (send env_standard (JStr ''Hi'') (JStr ''Body'') (JStr ''icon.png'') JUndefined
          (JBool True) (with_cached [handle_close 9, handle_close 8])))) = 1"
proof -
  have p: "permissionStatus env_standard (with_cached [handle_close 9, handle_close 8])
     = (Inr PERMISSION_GRANTED, with_cached [handle_close 9, handle_close 8])"
    by (simp add: run_simps env_standard_def)
  have t: "truthy (JBool True)"
    by simp
  have r: "removeAll env_standard (with_cached [handle_close 9, handle_close 8])
     = (Inr JUndefined,
        \<lparr>supported = Some True, cached = [],
         trace = [Call 9 (JObj None [(''close'', JObj (Some (Host 9)) []), (''onclose'', JNull)]) [],
                  Call 8 (JObj None [(''close'', JObj (Some (Host 8)) []), (''onclose'', JNull)]) []]\<rparr>)"
    by (simp add: run_simps env_standard_def)
  obtain s3 where c: "send_create env_standard (JStr ''Hi'') (JStr ''Body'') (JStr ''icon.png'')
        \<lparr>supported = Some True, cached = [],
         trace = [Call 9 (JObj None [(''close'', JObj (Some (Host 9)) []), (''onclose'', JNull)]) [],
                  Call 8 (JObj None [(''close'', JObj (Some (Host 8)) []), (''onclose'', JNull)]) []]\<rparr>
     = (Inr (JObj None [(''close'', JObj (Some (Host 9)) [])]), s3)"
    by (simp add: run_simps env_standard_def)
  have "fst (send env_standard (JStr ''Hi'') (JStr ''Body'') (JStr ''icon.png'') JUndefined (JBool True)
          (with_cached [handle_close 9, handle_close 8])) = Inr JUndefined \<and>
   length (cached (snd (send env_standard (JStr ''Hi'') (JStr ''Body'') (JStr ''icon.png'') JUndefined
          (JBool True) (with_cached [handle_close 9, handle_close 8])))) = 1"
    using send_clears_first [OF p t, of "JStr ''Hi''" "JStr ''Body''" "JStr ''icon.png''" JUndefined] r c
    by blast
  with p t r c show ?thesis
    by (simp add: handle_close_def)
qed

text \<open>
  Claim C10. Permission is granted, the optional \<open>removeAll\<close> has returned, and the
  backend has answered a handle, that is an object (\<open>null\<close> and a function are not
  handles). When \<open>callbacks\<close> is undefined, null or a primitive, \<open>send\<close> does not
  throw: it returns, and the cache has grown by the handle, whose \<open>onclick\<close>,
  \<open>onclose\<close> and \<open>onshow\<close> are null.
\<close>

theorem send_without_callbacks:
  assumes "\<not> is_object callbacks"
    and "permissionStatus e s = (Inr PERMISSION_GRANTED, s1)"
    and "(if truthy isRemoveAll then removeAll e else ret JUndefined) s1 = (Inr u, s2)"
    and "send_create e title message icon s2 = (Inr (JObj None ps), s3)"
  shows "send e title message icon callbacks isRemoveAll s =
           (Inr JUndefined,
            s3\<lparr>cached := cached s3 @
              [JObj None (put ''onshow'' JNull (put ''onclose'' JNull (put ''onclick'' JNull ps)))]\<rparr>) \<and>
         prop_of (JObj None (put ''onshow'' JNull (put ''onclose'' JNull (put ''onclick'' JNull ps))))
           ''onclick'' = JNull \<and>
         prop_of (JObj None (put ''onshow'' JNull (put ''onclose'' JNull (put ''onclick'' JNull ps))))
           ''onclose'' = JNull \<and>
         prop_of (JObj None (put ''onshow'' JNull (put ''onclose'' JNull (put ''onclick'' JNull ps))))
           ''onshow'' = JNull"
proof -
  have "send e title message icon callbacks isRemoveAll s =
          send_attach callbacks (JObj None ps) s3"
    using assms(2,3,4) by (simp add: send_def bnd_def)
  then show ?thesis
    using assms(1) by (simp add: send_attach_object callback_slot_not_object map_of_put)
qed

text \<open>The standard backend, a number where the callbacks should be, nothing to clear.\<close>

theorem send_without_callbacks_witness:
  "\<not> is_object (JNum 5) \<and>
   permissionStatus env_standard (with_cached []) = (Inr PERMISSION_GRANTED, with_cached []) \<and>
   (if truthy JUndefined then removeAll env_standard else ret JUndefined) (with_cached [])
     = (Inr JUndefined, with_cached []) \<and>
   send_create env_standard (JStr ''Hi'') (JStr ''Body'') (JStr ''icon.png'') (with_cached [])
     = (Inr (JObj None [(''close'', JObj (Some (Host 9)) [])]),
        \<lparr>supported = Some True, cached = [],
         trace = [New 0 [JStr ''Hi'', JObj None [(''icon'', JStr ''icon.png''), (''body'', JStr ''Body'')]]]\<rparr>) \<and>
   send env_standard (JStr ''Hi'') (JStr ''Body'') (JStr ''icon.png'') (JNum 5) JUndefined (with_cached [])
     = (Inr JUndefined,
        \<lparr>supported = Some True,
         cached = [JObj None [(''close'', JObj (Some (Host 9)) []), (''onclick'', JNull),
                              (''onclose'', JNull), (''onshow'', JNull)]],
         trace = [New 0 [JStr ''Hi'', JObj None [(''icon'', JStr ''icon.png''), (''body'', JStr ''Body'')]]]\<rparr>)"
proof -
  have o: "\<not> is_object (JNum 5)"
    by simp
  have p: "permissionStatus env_standard (with_cached []) = (Inr PERMISSION_GRANTED, with_cached [])"
    by (simp add: run_simps env_standard_def)
  have r: "(if truthy JUndefined then removeAll env_standard else ret JUndefined) (with_cached [])
     = (Inr JUndefined, with_cached [])"
    by (simp add: ret_def)
  have c: "send_create env_standard (JStr ''Hi'') (JStr ''Body'') (JStr ''icon.png'') (with_cached [])
     = (Inr (JObj None [(''close'', JObj (Some (Host 9)) [])]),
        \<lparr>supported = Some True, cached = [],
         trace = [New 0 [JStr ''Hi'', JObj None [(''icon'', JStr ''icon.png''), (''body'', JStr ''Body'')]]]\<rparr>)"
    by (simp add: run_simps env_standard_def)
  from send_without_callbacks [OF o p r c] o p r c show ?thesis
    by simp
qed

text \<open>
  Claim C2 does not hold of the code. \<open>available\<close> and \<open>permissionStatus\<close> look for
  the mobile backend at \<open>navigator.mozNotification\<close> (lines 46 and 118), \<open>send\<close> looks
  for it at \<open>window.mozNotification\<close> (line 175). Where \<open>navigator.mozNotification\<close> is
  the only backend, the facade is available and the permission is \<open>'granted'\<close>, but
  \<open>send\<close> finds no backend: it returns undefined, the factory is never called (the
  trace stays empty) and nothing is cached.
\<close>

theorem send_mobile_only_creates_nothing:
  "Notify env_mobile [] = \<lparr>supported = Some True, cached = [], trace = []\<rparr> \<and>
   permissionStatus env_mobile (Notify env_mobile []) = (Inr PERMISSION_GRANTED, Notify env_mobile []) \<and>
   send env_mobile (JStr ''Hi'') (JStr ''Body'') (JStr ''icon.png'') JUndefined (JBool False)
        (Notify env_mobile [])
     = (Inr JUndefined, \<lparr>supported = Some True, cached = [], trace = []\<rparr>)"
  by (simp add: run_simps env_mobile_def)

text \<open>
  What \<open>permissionStatus\<close> returns, branch by branch, after \<open>available()\<close> has
  returned \<open>a\<close> in state \<open>s1\<close>. \<open>N\<close> is \<open>window.Notification\<close> and \<open>X\<close> is
  \<open>window.external\<close>. The last three branches are reached only when reading
  \<open>navigator.mozNotification\<close> does not throw, and the last two only when the call of
  \<open>X.msIsSiteMode\<close> does not throw either.
\<close>

lemma permissionStatus_branches:
  assumes av: "available e s = (Inr a, s1)"
  defines "N \<equiv> wprop e ''Notification''" and "X \<equiv> wprop e ''external''"
  shows "\<not> truthy a \<Longrightarrow> permissionStatus e s = (Inr (JBool False), s1)"
    and "truthy a \<Longrightarrow> truthy N \<Longrightarrow> truthy (prop_of N ''permissionLevel'') \<Longrightarrow>
           permissionStatus e s = callm e N (prop_of N ''permissionLevel'') [] s1"
    and "truthy a \<Longrightarrow> truthy N \<Longrightarrow> \<not> truthy (prop_of N ''permissionLevel'') \<Longrightarrow>
           truthy (prop_of N ''permission'') \<Longrightarrow>
           permissionStatus e s = (Inr (prop_of N ''permission''), s1)"
    and "truthy a \<Longrightarrow> \<not> (truthy N \<and> truthy (prop_of N ''permissionLevel'')) \<Longrightarrow>
           \<not> (truthy N \<and> truthy (prop_of N ''permission'')) \<Longrightarrow>
           navigator_mozNotification e = Inr moz \<Longrightarrow> truthy moz \<Longrightarrow>
           permissionStatus e s = (Inr PERMISSION_GRANTED, s1)"
    and "truthy a \<Longrightarrow> \<not> (truthy N \<and> truthy (prop_of N ''permissionLevel'')) \<Longrightarrow>
           \<not> (truthy N \<and> truthy (prop_of N ''permission'')) \<Longrightarrow>
           navigator_mozNotification e = Inr moz \<Longrightarrow> \<not> truthy moz \<Longrightarrow> truthy X \<Longrightarrow>
           callm e X (prop_of X ''msIsSiteMode'') [] s1 = (Inr v, s2) \<Longrightarrow> v \<noteq> JUndefined \<Longrightarrow>
           callm e X (prop_of X ''msIsSiteMode'') [] s2 = (Inr v2, s3) \<Longrightarrow>
           permissionStatus e s =
             (Inr (if truthy v2 then PERMISSION_GRANTED else PERMISSION_DEFAULT), s3)"
    and "truthy a \<Longrightarrow> \<not> (truthy N \<and> truthy (prop_of N ''permissionLevel'')) \<Longrightarrow>
           \<not> (truthy N \<and> truthy (prop_of N ''permission'')) \<Longrightarrow>
           navigator_mozNotification e = Inr moz \<Longrightarrow> \<not> truthy moz \<Longrightarrow> \<not> truthy X \<Longrightarrow>
           permissionStatus e s = (Inr (JStr []), s1)"
    and "truthy a \<Longrightarrow> \<not> (truthy N \<and> truthy (prop_of N ''permissionLevel'')) \<Longrightarrow>
           \<not> (truthy N \<and> truthy (prop_of N ''permission'')) \<Longrightarrow>
           navigator_mozNotification e = Inr moz \<Longrightarrow> \<not> truthy moz \<Longrightarrow> truthy X \<Longrightarrow>
           callm e X (prop_of X ''msIsSiteMode'') [] s1 = (Inr JUndefined, s2) \<Longrightarrow>
           permissionStatus e s = (Inr (JStr []), s2)"
    and "truthy a \<Longrightarrow> \<not> (truthy N \<and> truthy (prop_of N ''permissionLevel'')) \<Longrightarrow>
           \<not> (truthy N \<and> truthy (prop_of N ''permission'')) \<Longrightarrow>
           navigator_mozNotification e = Inr moz \<Longrightarrow> \<not> truthy moz \<Longrightarrow> truthy X \<Longrightarrow>
           callm e X (prop_of X ''msIsSiteMode'') [] s1 = (Inl x, s2) \<Longrightarrow>
           permissionStatus e s = (Inl x, s2)"
  unfolding N_def X_def
  by (auto simp: permissionStatus_def bnd_def ret_def lift_def Let_def av)

lemma empty_status_distinct:
  "JStr [] \<noteq> PERMISSION_GRANTED \<and> JStr [] \<noteq> PERMISSION_DENIED \<and> JStr [] \<noteq> PERMISSION_DEFAULT \<and>
   JStr [] \<noteq> JBool False"
  by (simp add: PERMISSION_GRANTED_def PERMISSION_DENIED_def PERMISSION_DEFAULT_def)

text \<open>
  Claim C4 does not hold of the code in one case. With the vendor-prefixed backend
  and a \<open>window.external\<close> that has no \<open>msIsSiteMode\<close>, the facade is available and
  none of the four permission sources is there, but \<open>permissionStatus\<close> does not
  return the empty status: line 123 calls \<open>window.external.msIsSiteMode()\<close> without
  the \<open>try\<close> of \<open>available\<close> (lines 42-53) or the test of \<open>send\<close> (line 162), and the
  call of undefined throws a TypeError.
\<close>

theorem permissionStatus_webkit_throws:
  "Notify env_webkit [] = \<lparr>supported = Some True, cached = [], trace = []\<rparr> \<and>
   available env_webkit (Notify env_webkit []) = (Inr (JBool True), Notify env_webkit []) \<and>
   permissionStatus env_webkit (Notify env_webkit []) = (Inl TypeError, Notify env_webkit [])"
  by (simp add: run_simps env_webkit_def)

end
